theory Spec2Isabelle
  imports Main "HOL-Library.Word" "HOL-Library.Signed_Division"
begin

section \<open>The Linux target of the PLC runtime: \<^verbatim>\<open>targets/Linux/plc_Linux_main.c\<close>\<close>

text \<open>
  The file drives one periodic POSIX timer whose notification runs a PLC cycle, and
  holds the rendezvous between the PLC thread and the debugger thread. Every function
  of the file is straight-line code over global variables, operating-system objects
  (one timer, one mutex, one condition variable, the SIGINT disposition) and external
  collaborators (\<^verbatim>\<open>__init\<close>, \<^verbatim>\<open>__run\<close>, \<^verbatim>\<open>__cleanup\<close>). The embedding passes one state record
  through each function. Whatever the operating system or a collaborator decides (the
  clock reading, the result of \<^verbatim>\<open>timer_create\<close>, the status of \<^verbatim>\<open>__init\<close>, what \<^verbatim>\<open>__run\<close>
  does) is a parameter of the function that asks for it. Every call that leaves the
  file is appended to a log, so that the order and the number of calls can be stated.
\<close>

subsection \<open>Machine types\<close>

text \<open>
  The target is Linux with the LP64 data model: \<^verbatim>\<open>int\<close> has 32 bits, \<^verbatim>\<open>long\<close>, \<^verbatim>\<open>long long\<close>
  and \<^verbatim>\<open>time_t\<close> have 64 bits. Arithmetic on words wraps around.
\<close>

type_synonym c_int = "32 word"
type_synonym c_long = "64 word"
type_synonym c_llong = "64 word"

text \<open>An address of a \<^verbatim>\<open>long\<close> object, a timer id, a thread id.\<close>

type_synonym addr = nat
type_synonym timer_t = nat
type_synonym tid = nat

record timespec =
  tv_sec :: c_long
  tv_nsec :: c_long

record itimerspec =
  it_interval :: timespec
  it_value :: timespec

record lldiv_t =
  quot :: c_llong
  rem :: c_llong

subsection \<open>\<^verbatim>\<open>AtomicCompareExchange\<close> (lines 8 to 11)\<close>

text \<open>
  The compiler builtin \<^verbatim>\<open>__sync_val_compare_and_swap (ptr, oldval, newval)\<close>: if the
  current value of \<^verbatim>\<open>*ptr\<close> is \<^verbatim>\<open>oldval\<close>, then write \<^verbatim>\<open>newval\<close> into \<^verbatim>\<open>*ptr\<close>; it returns the
  contents of \<^verbatim>\<open>*ptr\<close> before the operation. Memory is a store from addresses to values.
\<close>

definition sync_val_compare_and_swap ::
  "(addr \<Rightarrow> c_long) \<Rightarrow> addr \<Rightarrow> c_long \<Rightarrow> c_long \<Rightarrow> c_long \<times> (addr \<Rightarrow> c_long)" where
  "sync_val_compare_and_swap mem ptr oldval newval =
     (let before = mem ptr
      in (before, if before = oldval then mem(ptr := newval) else mem))"

definition AtomicCompareExchange ::
  "(addr \<Rightarrow> c_long) \<Rightarrow> addr \<Rightarrow> c_long \<Rightarrow> c_long \<Rightarrow> c_long \<times> (addr \<Rightarrow> c_long)" where
  "AtomicCompareExchange mem atomicvar compared exchange =
     sync_val_compare_and_swap mem atomicvar compared exchange"

subsection \<open>The state\<close>

datatype sighandler = SIG_DFL | Catch_signal

datatype access = Read_debug_tick | Write_debug_tick

text \<open>
  The log. A timer call is logged with its return value (0 or -1),
  \<^verbatim>\<open>timer_create\<close> with the id it produced (\<open>None\<close> when it failed), \<^verbatim>\<open>__init\<close> with its
  status, \<^verbatim>\<open>__run\<close> with the value of \<^verbatim>\<open>__CURRENT_TIME\<close> it is started with. An access to
  \<^verbatim>\<open>__debug_tick\<close> is logged with the thread that makes it and with whether that thread
  holds \<^verbatim>\<open>wait_mutex\<close> at that moment.
\<close>

datatype event =
    Clock_gettime timespec
  | Run timespec
  | Timer_create "timer_t option"
  | Timer_settime timer_t itimerspec c_int
  | Timer_delete timer_t c_int
  | Init c_int
  | Cleanup
  | Signal_SIGINT sighandler
  | Mutex_lock tid
  | Mutex_unlock tid
  | Cond_wait_block tid
  | Cond_wait_return tid
  | Cond_broadcast tid
  | Access tid access bool

text \<open>
  The globals of the file (\<^verbatim>\<open>__CURRENT_TIME\<close>, \<^verbatim>\<open>PLC_timer\<close>, \<^verbatim>\<open>Ttick\<close>, \<^verbatim>\<open>__debug_tick\<close>, the
  external counter \<^verbatim>\<open>__tick\<close>), the operating system's side (the timers that exist, each
  with the setting it was last given; the SIGINT handler; the owner of \<^verbatim>\<open>wait_mutex\<close>; the
  threads blocked on \<^verbatim>\<open>wait_cond\<close> and those already woken that have not yet left
  \<^verbatim>\<open>pthread_cond_wait\<close>), and the log.

  \<open>os_defined\<close> holds as long as every call made to the operating system has a
  behaviour that POSIX defines. It is cleared by a timer call on an id that is not that
  of an existing timer; from then on the standard promises nothing about the process.
\<close>

record plc_state =
  CURRENT_TIME :: timespec
  PLC_timer :: timer_t
  Ttick :: c_llong
  debug_tick :: c_int
  tick :: c_int
  os_timers :: "timer_t \<rightharpoonup> itimerspec"
  sigint_handler :: sighandler
  wait_mutex :: "tid option"
  cond_parked :: "tid set"
  cond_woken :: "tid set"
  os_defined :: bool
  trace :: "event list"

definition zero_timespec :: timespec where
  "zero_timespec = \<lparr>tv_sec = 0, tv_nsec = 0\<rparr>"

definition zero_itimerspec :: itimerspec where
  "zero_itimerspec = \<lparr>it_interval = zero_timespec, it_value = zero_timespec\<rparr>"

text \<open>
  Static initialisation: zeroed globals, no timer, the default SIGINT disposition,
  \<^verbatim>\<open>PTHREAD_MUTEX_INITIALIZER\<close> and \<^verbatim>\<open>PTHREAD_COND_INITIALIZER\<close>, an empty log.
\<close>

definition initial_state :: plc_state where
  "initial_state =
     \<lparr>CURRENT_TIME = zero_timespec, PLC_timer = 0, Ttick = 0, debug_tick = 0, tick = 0,
      os_timers = Map.empty, sigint_handler = SIG_DFL, wait_mutex = None,
      cond_parked = {}, cond_woken = {}, os_defined = True, trace = []\<rparr>"

definition log_event :: "event \<Rightarrow> plc_state \<Rightarrow> plc_state" where
  "log_event e s = s\<lparr>trace := trace s @ [e]\<rparr>"

subsection \<open>The operating system's timer calls\<close>

text \<open>
  \<^verbatim>\<open>timer_create\<close> either fails (-1, nothing changes) or stores the id of a new, disarmed
  timer through its last argument, here always \<^verbatim>\<open>&PLC_timer\<close>. Which of the two happens
  is the kernel's choice \<open>created\<close>.
\<close>

definition timer_create :: "timer_t option \<Rightarrow> plc_state \<Rightarrow> c_int \<times> plc_state" where
  "timer_create created s =
     (case created of
        None \<Rightarrow> (- 1, log_event (Timer_create None) s)
      | Some timerid \<Rightarrow>
          (0, log_event (Timer_create (Some timerid))
                (s\<lparr>PLC_timer := timerid,
                   os_timers := (os_timers s)(timerid \<mapsto> zero_itimerspec)\<rparr>)))"

text \<open>
  On the id of an existing timer, \<^verbatim>\<open>timer_settime\<close> fails with \<^verbatim>\<open>EINVAL\<close>, and changes
  nothing, when a time of the new setting is negative or has nanoseconds outside
  0 .. 999999999; otherwise it stores the setting. On the id of an existing timer
  \<^verbatim>\<open>timer_delete\<close> releases the timer.

  On an id that is not that of an existing timer (never handed out by \<^verbatim>\<open>timer_create\<close>,
  or released by \<^verbatim>\<open>timer_delete\<close> since) POSIX leaves both calls undefined. The model
  marks this by clearing \<open>os_defined\<close>. So that the functions stay total the call is
  still logged, with the answer -1, and the timers are left alone, as Linux is seen to
  do; the properties below leave the answer of such a call open.
\<close>

definition valid_timespec :: "timespec \<Rightarrow> bool" where
  "valid_timespec ts \<longleftrightarrow>
     0 \<le> sint (tv_sec ts) \<and> 0 \<le> sint (tv_nsec ts) \<and> sint (tv_nsec ts) < 1000000000"

definition timer_settime :: "timer_t \<Rightarrow> itimerspec \<Rightarrow> plc_state \<Rightarrow> c_int \<times> plc_state" where
  "timer_settime timerid new_value s =
     (if os_timers s timerid = None
      then (- 1, log_event (Timer_settime timerid new_value (- 1)) (s\<lparr>os_defined := False\<rparr>))
      else if valid_timespec (it_value new_value) \<and> valid_timespec (it_interval new_value)
      then (0, log_event (Timer_settime timerid new_value 0)
                 (s\<lparr>os_timers := (os_timers s)(timerid \<mapsto> new_value)\<rparr>))
      else (- 1, log_event (Timer_settime timerid new_value (- 1)) s))"

definition timer_delete :: "timer_t \<Rightarrow> plc_state \<Rightarrow> c_int \<times> plc_state" where
  "timer_delete timerid s =
     (if os_timers s timerid = None
      then (- 1, log_event (Timer_delete timerid (- 1)) (s\<lparr>os_defined := False\<rparr>))
      else (0, log_event (Timer_delete timerid 0)
                 (s\<lparr>os_timers := (os_timers s)(timerid := None)\<rparr>)))"

text \<open>A timer is armed when the \<^verbatim>\<open>it_value\<close> of its setting is not zero.\<close>

definition armed :: "plc_state \<Rightarrow> timer_t \<Rightarrow> bool" where
  "armed s timerid =
     (case os_timers s timerid of
        None \<Rightarrow> False
      | Some setting \<Rightarrow> it_value setting \<noteq> zero_timespec)"

subsection \<open>\<^verbatim>\<open>PLC_GetTime\<close> and \<^verbatim>\<open>PLC_timer_notify\<close> (lines 18 to 27)\<close>

text \<open>
  \<^verbatim>\<open>PLC_GetTime\<close> is only ever called with \<^verbatim>\<open>&__CURRENT_TIME\<close>; \<open>now\<close> is what
  \<^verbatim>\<open>clock_gettime (CLOCK_REALTIME, ...)\<close> reads. The body of \<^verbatim>\<open>__run\<close> is the parameter \<open>run\<close>.
\<close>

definition PLC_GetTime :: "timespec \<Rightarrow> plc_state \<Rightarrow> plc_state" where
  "PLC_GetTime now s = log_event (Clock_gettime now) (s\<lparr>CURRENT_TIME := now\<rparr>)"

definition call_run :: "(plc_state \<Rightarrow> plc_state) \<Rightarrow> plc_state \<Rightarrow> plc_state" where
  "call_run run s = run (log_event (Run (CURRENT_TIME s)) s)"

definition PLC_timer_notify :: "(plc_state \<Rightarrow> plc_state) \<Rightarrow> timespec \<Rightarrow> plc_state \<Rightarrow> plc_state" where
  "PLC_timer_notify run now s = call_run run (PLC_GetTime now s)"

text \<open>A run of the timer: one notification per clock reading of the list.\<close>

definition timer_fires :: "(plc_state \<Rightarrow> plc_state) \<Rightarrow> timespec list \<Rightarrow> plc_state \<Rightarrow> plc_state" where
  "timer_fires run nows s = fold (PLC_timer_notify run) nows s"

text \<open>The time-stamps and the starts of \<^verbatim>\<open>__run\<close> of a log, in order.\<close>

fun stamp_or_run :: "event \<Rightarrow> bool" where
  "stamp_or_run (Clock_gettime _) = True"
| "stamp_or_run (Run _) = True"
| "stamp_or_run _ = False"

definition stamps_and_runs :: "event list \<Rightarrow> event list" where
  "stamps_and_runs tr = filter stamp_or_run tr"

subsection \<open>\<^verbatim>\<open>PLC_SetTimer\<close> (lines 31 to 54)\<close>

text \<open>
  \<^verbatim>\<open>lldiv\<close> and the operators \<^verbatim>\<open>/\<close> and \<^verbatim>\<open>%\<close> of the other preprocessor branch compute the
  same: the quotient truncated towards zero and the remainder with the sign of the
  dividend.
\<close>

definition lldiv :: "c_llong \<Rightarrow> c_llong \<Rightarrow> lldiv_t" where
  "lldiv numer denom =
     \<lparr>quot = word_of_int (sint numer sdiv sint denom),
      rem = word_of_int (sint numer smod sint denom)\<rparr>"

definition PLC_SetTimer_timerValues :: "c_llong \<Rightarrow> c_llong \<Rightarrow> itimerspec" where
  "PLC_SetTimer_timerValues next period =
     (let timerValues = zero_itimerspec;
          nxt_div = lldiv next 1000000000;
          period_div = lldiv period 1000000000;
          timerValues = timerValues\<lparr>it_value := (it_value timerValues)\<lparr>tv_sec := quot nxt_div\<rparr>\<rparr>;
          timerValues = timerValues\<lparr>it_value := (it_value timerValues)\<lparr>tv_nsec := rem nxt_div\<rparr>\<rparr>;
          timerValues =
            timerValues\<lparr>it_interval := (it_interval timerValues)\<lparr>tv_sec := quot period_div\<rparr>\<rparr>;
          timerValues =
            timerValues\<lparr>it_interval := (it_interval timerValues)\<lparr>tv_nsec := rem period_div\<rparr>\<rparr>
      in timerValues)"

text \<open>The return value of \<^verbatim>\<open>timer_settime\<close> is dropped.\<close>

definition PLC_SetTimer :: "c_llong \<Rightarrow> c_llong \<Rightarrow> plc_state \<Rightarrow> plc_state" where
  "PLC_SetTimer next period s =
     snd (timer_settime (PLC_timer s) (PLC_SetTimer_timerValues next period) s)"

subsection \<open>\<^verbatim>\<open>startPLC\<close> (lines 64 to 87)\<close>

text \<open>
  Modelled from the spec: the macro \<^verbatim>\<open>maxval\<close> and the declarations of
  \<^verbatim>\<open>common_ticktime__\<close> and \<^verbatim>\<open>Ttick\<close> are outside the file. The spec floors the configured
  tick time at one time-unit, so that no zero or negative period is armed: \<^verbatim>\<open>maxval\<close> is the
  greater of its arguments, compared as signed values. \<^verbatim>\<open>Ttick\<close> is a \<^verbatim>\<open>long long\<close>, as
  the parameters of \<^verbatim>\<open>PLC_SetTimer\<close> it is passed for. The type of \<^verbatim>\<open>common_ticktime__\<close> is
  left open: a signed integer type of \<open>LENGTH('w)\<close> bits, at least those of \<^verbatim>\<open>int\<close>, in
  which the product with the \<^verbatim>\<open>int\<close> constant 1000000 is computed before it is converted
  to \<^verbatim>\<open>long long\<close>.
\<close>

definition maxval :: "'w::len word \<Rightarrow> 'w word \<Rightarrow> 'w word" where
  "maxval a b = (if sint a > sint b then a else b)"

definition call_init :: "c_int \<Rightarrow> plc_state \<Rightarrow> c_int \<times> plc_state" where
  "call_init init_status s = (init_status, log_event (Init init_status) s)"

definition signal_SIGINT :: "sighandler \<Rightarrow> plc_state \<Rightarrow> plc_state" where
  "signal_SIGINT handler s = log_event (Signal_SIGINT handler) (s\<lparr>sigint_handler := handler\<rparr>)"

text \<open>
  \<open>created\<close> is the outcome of \<^verbatim>\<open>timer_create\<close>, \<open>init_status\<close> what \<^verbatim>\<open>__init (argc, argv)\<close>
  returns. The return value of \<^verbatim>\<open>timer_create\<close> is dropped. Of \<^verbatim>\<open>catch_signal\<close> (lines 56
  to 62), which ends the process, only the installation as the SIGINT handler is part of
  the state.
\<close>

definition startPLC ::
  "'w::len word \<Rightarrow> timer_t option \<Rightarrow> c_int \<Rightarrow> plc_state \<Rightarrow> c_int \<times> plc_state" where
  "startPLC common_ticktime created init_status s =
     (let s = s\<lparr>Ttick := scast (1000000 * maxval common_ticktime 1)\<rparr>;
          s = snd (timer_create created s);
          (status, s) = call_init init_status s
      in if status = 0
         then (let s = PLC_SetTimer (Ttick s) (Ttick s) s;
                   s = signal_SIGINT Catch_signal s
               in (0, s))
         else (1, s))"

subsection \<open>The debugger's rendezvous (lines 89 to 132)\<close>

text \<open>
  Accesses to \<^verbatim>\<open>__debug_tick\<close> by thread \<open>t\<close>, logged with whether \<open>t\<close> holds \<^verbatim>\<open>wait_mutex\<close>.
\<close>

definition write_debug_tick :: "tid \<Rightarrow> c_int \<Rightarrow> plc_state \<Rightarrow> plc_state" where
  "write_debug_tick t v s =
     log_event (Access t Write_debug_tick (wait_mutex s = Some t)) (s\<lparr>debug_tick := v\<rparr>)"

definition read_debug_tick :: "tid \<Rightarrow> plc_state \<Rightarrow> c_int \<times> plc_state" where
  "read_debug_tick t s =
     (debug_tick s, log_event (Access t Read_debug_tick (wait_mutex s = Some t)) s)"

text \<open>
  The pthread calls, made by thread \<open>t\<close>. A call that cannot return in the given state
  (the mutex is taken; nobody wakes the waiter) has the value \<open>None\<close>.

  \<^verbatim>\<open>pthread_cond_wait\<close> releases the mutex and blocks the caller in one step; then the
  other threads run (\<open>others\<close> is what they do to the state meanwhile); the caller
  returns, holding the mutex again, if by then it has been woken and the mutex is free.
\<close>

definition pthread_mutex_lock :: "tid \<Rightarrow> plc_state \<Rightarrow> plc_state option" where
  "pthread_mutex_lock t s =
     (if wait_mutex s = None
      then Some (log_event (Mutex_lock t) (s\<lparr>wait_mutex := Some t\<rparr>))
      else None)"

definition pthread_mutex_unlock :: "tid \<Rightarrow> plc_state \<Rightarrow> plc_state" where
  "pthread_mutex_unlock t s =
     log_event (Mutex_unlock t)
       (if wait_mutex s = Some t then s\<lparr>wait_mutex := None\<rparr> else s)"

definition pthread_cond_broadcast :: "tid \<Rightarrow> plc_state \<Rightarrow> plc_state" where
  "pthread_cond_broadcast t s =
     log_event (Cond_broadcast t)
       (s\<lparr>cond_woken := cond_woken s \<union> cond_parked s, cond_parked := {}\<rparr>)"

definition pthread_cond_wait ::
  "tid \<Rightarrow> (plc_state \<Rightarrow> plc_state) \<Rightarrow> plc_state \<Rightarrow> plc_state option" where
  "pthread_cond_wait t others s =
     (if wait_mutex s = Some t
      then (let s = log_event (Cond_wait_block t)
                      (s\<lparr>wait_mutex := None, cond_parked := insert t (cond_parked s)\<rparr>);
                s = others s
            in if t \<in> cond_woken s \<and> wait_mutex s = None
               then Some (log_event (Cond_wait_return t)
                            (s\<lparr>wait_mutex := Some t, cond_woken := cond_woken s - {t}\<rparr>))
               else None)
      else None)"

text \<open>A wake-up without a broadcast, which POSIX allows.\<close>

definition spurious_wakeup :: "tid \<Rightarrow> plc_state \<Rightarrow> plc_state" where
  "spurious_wakeup t s =
     (if t \<in> cond_parked s
      then s\<lparr>cond_parked := cond_parked s - {t}, cond_woken := insert t (cond_woken s)\<rparr>
      else s)"

text \<open>The two calls of \<^verbatim>\<open>pthread_mutex_lock\<close> and \<^verbatim>\<open>pthread_mutex_unlock\<close> are commented out.\<close>

definition AbortDebug :: "tid \<Rightarrow> plc_state \<Rightarrow> plc_state" where
  "AbortDebug t s =
     (let s = write_debug_tick t (- 1) s;
          s = pthread_cond_broadcast t s
      in s)"



definition WaitDebugData ::
  "tid \<Rightarrow> (plc_state \<Rightarrow> plc_state) \<Rightarrow> plc_state \<Rightarrow> (c_int \<times> plc_state) option" where
  "WaitDebugData t others s =
     (case pthread_mutex_lock t s of
        None \<Rightarrow> None
      | Some s \<Rightarrow>
          (case pthread_cond_wait t others s of
             None \<Rightarrow> None
           | Some s \<Rightarrow>
               (let s = pthread_mutex_unlock t s
                in Some (read_debug_tick t s))))"

definition InitiateDebugTransfer :: "tid \<Rightarrow> plc_state \<Rightarrow> plc_state" where
  "InitiateDebugTransfer t s =
     (let s = write_debug_tick t (tick s) s;
          s = pthread_cond_broadcast t s
      in s)"


text \<open>
  A log respects the locking discipline when each of its accesses to \<^verbatim>\<open>__debug_tick\<close> was
  made by a thread that held \<^verbatim>\<open>wait_mutex\<close>.
\<close>

definition all_guarded :: "event list \<Rightarrow> bool" where
  "all_guarded tr =
     list_all (\<lambda>e. case e of Access _ _ held \<Rightarrow> held | _ \<Rightarrow> True) tr"

text \<open>
  The state that the other threads find while \<open>t\<close>, which entered \<^verbatim>\<open>WaitDebugData\<close> in
  state \<open>s\<close>, is blocked in \<^verbatim>\<open>pthread_cond_wait\<close>.
\<close>

definition blocked_state :: "tid \<Rightarrow> plc_state \<Rightarrow> plc_state" where
  "blocked_state t s =
     s\<lparr>wait_mutex := None, cond_parked := insert t (cond_parked s),
       trace := trace s @ [Mutex_lock t, Cond_wait_block t]\<rparr>"

text \<open>
  Disarming and destroying the timer: the first two statements of \<^verbatim>\<open>stopPLC\<close>
  (lines 106 and 107).
\<close>

definition disarm_and_destroy :: "plc_state \<Rightarrow> plc_state" where
  "disarm_and_destroy s =
     (let s = PLC_SetTimer 0 0 s;
          s = snd (timer_delete (PLC_timer s) s)
      in s)"



fun is_cleanup :: "event \<Rightarrow> bool" where
  "is_cleanup Cleanup = True"
| "is_cleanup _ = False"


subsection \<open>States for the examples\<close>

text \<open>
  The PLC after a successful start from the initial state: a tick time of 20 held in an
  \<^verbatim>\<open>int\<close>, the kernel hands out timer 0, \<^verbatim>\<open>__init\<close> returns 0.
\<close>

definition running_state :: plc_state where
  "running_state = snd (startPLC (20 :: c_int) (Some 0) 0 initial_state)"

text \<open>
  The PLC after a start that failed in \<^verbatim>\<open>__init\<close> (status 1), from the initial state,
  \<^verbatim>\<open>timer_create\<close> having handed out timer 0.
\<close>

definition failed_start :: plc_state where
  "failed_start = snd (startPLC (20 :: c_int) (Some 0) 1 initial_state)"

section \<open>Properties\<close>

subsection \<open>Auxiliary facts: the decomposition\<close>

lemma sdiv_nonneg: "0 \<le> k \<Longrightarrow> 0 < l \<Longrightarrow> (k::int) sdiv l = k div l"
  by (cases "k = 0") (simp_all add: signed_divide_int_def)

lemma smod_nonneg: "0 \<le> k \<Longrightarrow> 0 < l \<Longrightarrow> (k::int) smod l = k mod l"
  by (cases "k = 0") (simp_all add: signed_modulo_int_def)

lemma sint_word_of_int_64:
  "- (2 ^ 63) \<le> k \<Longrightarrow> k < 2 ^ 63 \<Longrightarrow> sint (word_of_int k :: c_llong) = k"
  by (simp add: sint_sbintrunc' signed_take_bit_int_eq_self)

lemma lldiv_nonneg:
  assumes "0 \<le> n" "n < 2 ^ 63"
  shows "sint (quot (lldiv (word_of_int n) 1000000000)) = n div 1000000000"
    and "sint (rem (lldiv (word_of_int n) 1000000000)) = n mod 1000000000"
proof -
  have n: "sint (word_of_int n :: c_llong) = n"
    using assms by (simp add: sint_word_of_int_64)
  have q0: "0 \<le> n div 1000000000"
    using assms by (simp add: pos_imp_zdiv_nonneg_iff)
  have "n div 1000000000 \<le> n"
    using assms by (cases "n = 0") (simp_all add: int_div_le_self)
  then have q1: "n div 1000000000 < 2 ^ 63"
    using assms by linarith
  have r: "0 \<le> n mod 1000000000" "n mod 1000000000 < 1000000000"
    by simp_all
  show "sint (quot (lldiv (word_of_int n) 1000000000)) = n div 1000000000"
    using assms q0 q1 by (simp add: lldiv_def n sdiv_nonneg sint_word_of_int_64)
  show "sint (rem (lldiv (word_of_int n) 1000000000)) = n mod 1000000000"
    using assms r by (simp add: lldiv_def n smod_nonneg sint_word_of_int_64)
qed

lemma timerValues_fields:
  "tv_sec (it_value (PLC_SetTimer_timerValues next period)) = quot (lldiv next 1000000000)"
  "tv_nsec (it_value (PLC_SetTimer_timerValues next period)) = rem (lldiv next 1000000000)"
  "tv_sec (it_interval (PLC_SetTimer_timerValues next period)) = quot (lldiv period 1000000000)"
  "tv_nsec (it_interval (PLC_SetTimer_timerValues next period)) = rem (lldiv period 1000000000)"
  by (simp_all add: PLC_SetTimer_timerValues_def Let_def)

lemma timerValues_eq:
  "PLC_SetTimer_timerValues next period =
     \<lparr>it_interval = \<lparr>tv_sec = quot (lldiv period 1000000000), tv_nsec = rem (lldiv period 1000000000)\<rparr>,
      it_value = \<lparr>tv_sec = quot (lldiv next 1000000000), tv_nsec = rem (lldiv next 1000000000)\<rparr>\<rparr>"
  by (simp add: PLC_SetTimer_timerValues_def Let_def zero_itimerspec_def zero_timespec_def)

lemma lldiv_examples:
  "lldiv 1500000000 1000000000 = \<lparr>quot = 1, rem = 500000000\<rparr>"
  "lldiv 999999999 1000000000 = \<lparr>quot = 0, rem = 999999999\<rparr>"
  "lldiv 0 1000000000 = \<lparr>quot = 0, rem = 0\<rparr>"
  "lldiv 9223372036854775807 1000000000 = \<lparr>quot = 9223372036, rem = 854775807\<rparr>"
  by (simp_all add: lldiv_def signed_divide_int_def signed_modulo_int_def)

lemma timerValues_zero: "PLC_SetTimer_timerValues 0 0 = zero_itimerspec"
  by (simp add: timerValues_eq lldiv_examples zero_itimerspec_def zero_timespec_def)

lemma valid_zero_timespec: "valid_timespec zero_timespec"
  by (simp add: valid_timespec_def zero_timespec_def)

lemma PLC_SetTimer_live:
  assumes "os_timers s (PLC_timer s) \<noteq> None"
    and "valid_timespec (it_value (PLC_SetTimer_timerValues next period))"
    and "valid_timespec (it_interval (PLC_SetTimer_timerValues next period))"
  shows "PLC_SetTimer next period s =
           s\<lparr>os_timers := (os_timers s)(PLC_timer s \<mapsto> PLC_SetTimer_timerValues next period),
             trace := trace s @ [Timer_settime (PLC_timer s) (PLC_SetTimer_timerValues next period) 0]\<rparr>"
proof -
  obtain setting where "os_timers s (PLC_timer s) = Some setting"
    using assms(1) by auto
  then show ?thesis
    using assms(2,3) by (simp add: PLC_SetTimer_def timer_settime_def log_event_def)
qed


lemma PLC_SetTimer_trace:
  "\<exists>r. trace (PLC_SetTimer next period s) =
        trace s @ [Timer_settime (PLC_timer s) (PLC_SetTimer_timerValues next period) r]"
  by (simp add: PLC_SetTimer_def timer_settime_def log_event_def)

lemma sint_in_range:
  "- (2 ^ (LENGTH('w) - 1)) \<le> k \<Longrightarrow> k < 2 ^ (LENGTH('w) - 1) \<Longrightarrow>
     sint (word_of_int k :: 'w::len word) = k"
  by (simp add: sint_sbintrunc' signed_take_bit_int_eq_self)

lemma Ttick_value:
  fixes c :: "'w::len word"
  assumes len: "LENGTH('w) \<le> 64"
    and fits: "1000000 * max (sint c) 1 < 2 ^ (LENGTH('w) - 1)"
  shows "sint (scast (1000000 * maxval c 1) :: c_llong) = 1000000 * max (sint c) 1"
proof -
  let ?m = "max (sint c) 1"
  have m1: "1 \<le> ?m" by simp
  have big: "(1000000::int) \<le> 1000000 * ?m" using m1 by linarith
  have one: "sint (1 :: 'w word) = 1"
    using sint_in_range [where 'w='w, of 1] big fits by simp
  have mil: "sint (1000000 :: 'w word) = 1000000"
    using sint_in_range [where 'w='w, of 1000000] big fits by simp
  have mx: "sint (maxval c 1) = ?m"
  proof (cases "1 < sint c")
    case True
    then have "maxval c 1 = c" unfolding maxval_def one by (simp only: if_True)
    with True show ?thesis by (simp only: max_def) simp
  next
    case False
    then have "maxval c 1 = 1" unfolding maxval_def one by (simp only: if_False)
    with False show ?thesis by (simp only: max_def one) simp
  qed
  have "sint ((1000000 :: 'w word) * maxval c 1) =
          signed_take_bit (LENGTH('w) - 1) (1000000 * ?m)"
    by (simp only: sint_word_mult mil mx)
  also have "\<dots> = 1000000 * ?m"
    using fits big by (intro signed_take_bit_int_eq_self) linarith+
  finally have prod: "sint ((1000000 :: 'w word) * maxval c 1) = 1000000 * ?m" .
  have "is_up (scast :: 'w word \<Rightarrow> c_llong)"
    using len by (simp add: is_up)
  then have "sint (scast (1000000 * maxval c 1) :: c_llong) = sint ((1000000 :: 'w word) * maxval c 1)"
    by (rule sint_up_scast)
  then show ?thesis
    by (simp only: prod)
qed

subsection \<open>Auxiliary facts: the rendezvous\<close>

lemma AbortDebug_eq:
  "AbortDebug t s =
     s\<lparr>debug_tick := - 1,
       cond_parked := {},
       cond_woken := cond_woken s \<union> cond_parked s,
       trace := trace s @ [Access t Write_debug_tick (wait_mutex s = Some t), Cond_broadcast t]\<rparr>"
  by (simp add: AbortDebug_def write_debug_tick_def pthread_cond_broadcast_def log_event_def)

lemma InitiateDebugTransfer_eq:
  "InitiateDebugTransfer t s =
     s\<lparr>debug_tick := tick s,
       cond_parked := {},
       cond_woken := cond_woken s \<union> cond_parked s,
       trace := trace s @ [Access t Write_debug_tick (wait_mutex s = Some t), Cond_broadcast t]\<rparr>"
  by (simp add: InitiateDebugTransfer_def write_debug_tick_def pthread_cond_broadcast_def
      log_event_def)







lemma WaitDebugData_busy: "wait_mutex s \<noteq> None \<Longrightarrow> WaitDebugData t others s = None"
  by (cases "wait_mutex s") (simp_all add: WaitDebugData_def pthread_mutex_lock_def)

lemma WaitDebugData_eq:
  assumes "wait_mutex s = None"
  shows "WaitDebugData t others s =
     (let s' = others (blocked_state t s)
      in if t \<in> cond_woken s' \<and> wait_mutex s' = None
         then Some (debug_tick s',
                    s'\<lparr>cond_woken := cond_woken s' - {t},
                       trace := trace s' @
                         [Cond_wait_return t, Mutex_unlock t, Access t Read_debug_tick False]\<rparr>)
         else None)"
  using assms
  by (simp add: WaitDebugData_def pthread_mutex_lock_def pthread_cond_wait_def
      pthread_mutex_unlock_def read_debug_tick_def log_event_def blocked_state_def Let_def)



lemma WaitDebugData_value:
  assumes "WaitDebugData t others s = Some (v, s')"
  shows "v = debug_tick (others (blocked_state t s))"
    and "v = debug_tick s'"
    and "wait_mutex s' = None"
    and "trace s' = trace (others (blocked_state t s)) @
           [Cond_wait_return t, Mutex_unlock t, Access t Read_debug_tick False]"
proof -
  have free: "wait_mutex s = None"
    using assms WaitDebugData_busy [of s t others] by (cases "wait_mutex s") simp_all
  have r: "(if t \<in> cond_woken (others (blocked_state t s)) \<and>
               wait_mutex (others (blocked_state t s)) = None
            then Some (debug_tick (others (blocked_state t s)),
                    (others (blocked_state t s))
                      \<lparr>cond_woken := cond_woken (others (blocked_state t s)) - {t},
                       trace := trace (others (blocked_state t s)) @
                         [Cond_wait_return t, Mutex_unlock t, Access t Read_debug_tick False]\<rparr>)
            else None) = Some (v, s')"
    using assms by (simp add: WaitDebugData_eq [OF free] Let_def)
  then have w: "t \<in> cond_woken (others (blocked_state t s)) \<and>
                wait_mutex (others (blocked_state t s)) = None"
    by (simp split: if_splits)
  from r w have v: "v = debug_tick (others (blocked_state t s))"
    and s': "s' = (others (blocked_state t s))
                      \<lparr>cond_woken := cond_woken (others (blocked_state t s)) - {t},
                       trace := trace (others (blocked_state t s)) @
                         [Cond_wait_return t, Mutex_unlock t, Access t Read_debug_tick False]\<rparr>"
    by simp_all
  show "v = debug_tick (others (blocked_state t s))" by (rule v)
  show "v = debug_tick s'" by (simp add: v s')
  show "wait_mutex s' = None" using w by (simp add: s')
  show "trace s' = trace (others (blocked_state t s)) @
           [Cond_wait_return t, Mutex_unlock t, Access t Read_debug_tick False]"
    by (simp add: s')
qed






subsection \<open>Auxiliary facts: start, stop and the timer notification\<close>

lemma timer_create_eq:
  "snd (timer_create None s) = s\<lparr>trace := trace s @ [Timer_create None]\<rparr>"
  "snd (timer_create (Some h) s) =
     s\<lparr>PLC_timer := h, os_timers := (os_timers s)(h \<mapsto> zero_itimerspec),
       trace := trace s @ [Timer_create (Some h)]\<rparr>"
  by (simp_all add: timer_create_def log_event_def)

lemma timer_create_trace:
  "trace (snd (timer_create created s)) = trace s @ [Timer_create created]"
  by (cases created) (simp_all add: timer_create_eq)

lemma timer_create_frame:
  "Ttick (snd (timer_create created s)) = Ttick s"
  "sigint_handler (snd (timer_create created s)) = sigint_handler s"
  by (cases created; simp add: timer_create_eq)+

lemma startPLC_failure:
  assumes "init_status \<noteq> 0"
  shows "startPLC c created init_status s =
     (1, (snd (timer_create created (s\<lparr>Ttick := scast (1000000 * maxval c 1)\<rparr>)))
           \<lparr>trace := trace s @ [Timer_create created, Init init_status]\<rparr>)"
  using assms
  by (simp add: startPLC_def call_init_def log_event_def Let_def timer_create_trace)

lemma startPLC_success:
  "startPLC c created 0 s =
     (0, signal_SIGINT Catch_signal
           (PLC_SetTimer (scast (1000000 * maxval c 1)) (scast (1000000 * maxval c 1))
              (log_event (Init 0)
                 (snd (timer_create created (s\<lparr>Ttick := scast (1000000 * maxval c 1)\<rparr>))))))"
  by (simp add: startPLC_def call_init_def log_event_def Let_def timer_create_frame)

lemma PLC_SetTimer_frame:
  "Ttick (PLC_SetTimer next period s) = Ttick s"
  "PLC_timer (PLC_SetTimer next period s) = PLC_timer s"
  "sigint_handler (PLC_SetTimer next period s) = sigint_handler s"
  by (simp_all add: PLC_SetTimer_def timer_settime_def log_event_def)

lemma startPLC_Ttick:
  "Ttick (snd (startPLC c created init_status s)) = scast (1000000 * maxval c 1)"
proof (cases "init_status = 0")
  case True
  then show ?thesis
    by (simp add: startPLC_success signal_SIGINT_def log_event_def PLC_SetTimer_frame
        timer_create_frame)
next
  case False
  then show ?thesis
    by (simp add: startPLC_failure timer_create_frame)
qed

lemma startPLC_result:
  "fst (startPLC c created init_status s) = (if init_status = 0 then 0 else 1)"
  by (simp add: startPLC_success startPLC_failure)


lemma disarm_and_destroy_live:
  assumes "os_timers s (PLC_timer s) \<noteq> None"
  shows "disarm_and_destroy s =
     s\<lparr>os_timers := (os_timers s)(PLC_timer s := None),
       trace := trace s @ [Timer_settime (PLC_timer s) zero_itimerspec 0,
                           Timer_delete (PLC_timer s) 0]\<rparr>"
  using assms
  by (simp add: disarm_and_destroy_def PLC_SetTimer_live timerValues_zero timer_delete_def
      log_event_def zero_itimerspec_def valid_zero_timespec Let_def)



lemma failed_start_eq:
  "failed_start =
     initial_state\<lparr>Ttick := 20000000, os_timers := [0 \<mapsto> zero_itimerspec],
       trace := [Timer_create (Some 0), Init 1]\<rparr>"
  by (simp add: failed_start_def startPLC_failure timer_create_eq maxval_def initial_state_def)

lemma sint_64_bounds: "- (2 ^ 63) \<le> sint (w :: c_llong)" "sint (w :: c_llong) < 2 ^ 63"
  using sint_ge [of w] sint_lt [of w] by simp_all

lemma timerValues_same: 
  "it_value (PLC_SetTimer_timerValues T T) = it_interval (PLC_SetTimer_timerValues T T)"
  by (simp add: timerValues_eq)

lemma timerValues_nonneg:
  assumes "0 \<le> sint T"
  shows "sint (tv_sec (it_value (PLC_SetTimer_timerValues T period))) = sint T div 1000000000"
    and "sint (tv_nsec (it_value (PLC_SetTimer_timerValues T period))) = sint T mod 1000000000"
proof -
  have "sint (quot (lldiv (word_of_int (sint T)) 1000000000)) = sint T div 1000000000"
    using assms sint_64_bounds(2) [of T] by (rule lldiv_nonneg(1))
  then show "sint (tv_sec (it_value (PLC_SetTimer_timerValues T period))) = sint T div 1000000000"
    by (simp add: timerValues_fields)
  have "sint (rem (lldiv (word_of_int (sint T)) 1000000000)) = sint T mod 1000000000"
    using assms sint_64_bounds(2) [of T] by (rule lldiv_nonneg(2))
  then show "sint (tv_nsec (it_value (PLC_SetTimer_timerValues T period))) = sint T mod 1000000000"
    by (simp add: timerValues_fields)
qed

lemma timerValues_valid:
  assumes "0 \<le> sint T"
  shows "valid_timespec (it_value (PLC_SetTimer_timerValues T period))"
  using assms
  by (simp add: valid_timespec_def timerValues_nonneg pos_imp_zdiv_nonneg_iff)

lemma timerValues_interval_valid:
  assumes "0 \<le> sint period"
  shows "valid_timespec (it_interval (PLC_SetTimer_timerValues next period))"
proof -
  have "it_interval (PLC_SetTimer_timerValues next period) =
          it_value (PLC_SetTimer_timerValues period next)"
    by (simp add: timerValues_eq)
  then show ?thesis
    using timerValues_valid [OF assms, of "next"] by simp
qed

lemma timerValues_sum:
  assumes "0 \<le> sint T"
  shows "sint (tv_sec (it_value (PLC_SetTimer_timerValues T period))) * 1000000000 +
         sint (tv_nsec (it_value (PLC_SetTimer_timerValues T period))) = sint T"
  using assms by (simp add: timerValues_nonneg)

lemma timerValues_nonzero:
  assumes "0 < sint T"
  shows "it_value (PLC_SetTimer_timerValues T period) \<noteq> zero_timespec"
proof
  assume z: "it_value (PLC_SetTimer_timerValues T period) = zero_timespec"
  have "sint (tv_sec (it_value (PLC_SetTimer_timerValues T period))) * 1000000000 +
         sint (tv_nsec (it_value (PLC_SetTimer_timerValues T period))) = sint T"
    using assms by (intro timerValues_sum) simp
  then have "sint T = 0"
    by (simp add: z zero_timespec_def)
  with assms show False by simp
qed

lemma running_state_eq:
  "running_state =
     initial_state\<lparr>Ttick := 20000000,
       os_timers := [0 \<mapsto> \<lparr>it_interval = \<lparr>tv_sec = 0, tv_nsec = 20000000\<rparr>,
                            it_value = \<lparr>tv_sec = 0, tv_nsec = 20000000\<rparr>\<rparr>],
       sigint_handler := Catch_signal,
       trace := [Timer_create (Some 0), Init 0,
                 Timer_settime 0 \<lparr>it_interval = \<lparr>tv_sec = 0, tv_nsec = 20000000\<rparr>,
                                  it_value = \<lparr>tv_sec = 0, tv_nsec = 20000000\<rparr>\<rparr> 0,
                 Signal_SIGINT Catch_signal]\<rparr>"
proof -
  have d: "lldiv 20000000 1000000000 = \<lparr>quot = 0, rem = 20000000\<rparr>"
    by (simp add: lldiv_def signed_divide_int_def signed_modulo_int_def)
  have T: "(scast ((1000000 :: c_int) * maxval 20 1) :: c_llong) = 20000000"
    by (simp add: maxval_def)
  show ?thesis
    unfolding running_state_def
    by (simp add: startPLC_success T timer_create_eq signal_SIGINT_def log_event_def
        PLC_SetTimer_def timer_settime_def timerValues_eq d valid_timespec_def initial_state_def)
qed

lemma running_state_live: "os_timers running_state (PLC_timer running_state) \<noteq> None"
  by (simp add: running_state_eq initial_state_def)



lemma PLC_timer_notify_eq:
  "PLC_timer_notify run now s =
     run (s\<lparr>CURRENT_TIME := now, trace := trace s @ [Clock_gettime now, Run now]\<rparr>)"
  by (simp add: PLC_timer_notify_def call_run_def PLC_GetTime_def log_event_def)

lemma timer_fires_Nil: "timer_fires run [] s = s"
  by (simp add: timer_fires_def)

lemma timer_fires_Cons:
  "timer_fires run (now # nows) s = timer_fires run nows (PLC_timer_notify run now s)"
  by (simp add: timer_fires_def)

lemma timer_fires_stamps:
  assumes quiet: "\<forall>s. stamps_and_runs (trace (run s)) = stamps_and_runs (trace s)"
  shows "stamps_and_runs (trace (timer_fires run nows s)) =
           stamps_and_runs (trace s) @ concat (map (\<lambda>now. [Clock_gettime now, Run now]) nows)"
proof (induction nows arbitrary: s)
  case Nil
  show ?case by (simp add: timer_fires_Nil)
next
  case (Cons now nows)
  have "stamps_and_runs (trace (PLC_timer_notify run now s)) =
          stamps_and_runs (trace s) @ [Clock_gettime now, Run now]"
    by (simp add: PLC_timer_notify_eq quiet) (simp add: stamps_and_runs_def)
  then show ?case
    by (simp add: timer_fires_Cons Cons.IH)
qed

subsection \<open>\<^verbatim>\<open>AtomicCompareExchange\<close>\<close>

text \<open>
  C10. \<^verbatim>\<open>AtomicCompareExchange (atomicvar, compared, exchange)\<close> returns the value that
  \<^verbatim>\<open>*atomicvar\<close> had before the call; it stores \<^verbatim>\<open>exchange\<close> there when that value equals
  \<^verbatim>\<open>compared\<close>, and otherwise leaves the memory as it was. No other address is written.
\<close>

theorem AtomicCompareExchange_returns_prior_and_swaps:
  "fst (AtomicCompareExchange mem atomicvar compared exchange) = mem atomicvar \<and>
   snd (AtomicCompareExchange mem atomicvar compared exchange) =
     (if mem atomicvar = compared then mem(atomicvar := exchange) else mem)"
  by (simp add: AtomicCompareExchange_def sync_val_compare_and_swap_def Let_def)

subsection \<open>\<^verbatim>\<open>PLC_timer_notify\<close>\<close>

text \<open>
  C9. A notification stores the clock reading in \<^verbatim>\<open>__CURRENT_TIME\<close> and then starts
  \<^verbatim>\<open>__run\<close>: the state that \<^verbatim>\<open>__run\<close> starts in is the state before the notification with
  the new current time, one time-stamp and the start of \<^verbatim>\<open>__run\<close> logged in this order,
  and nothing else changed. Over any sequence of notifications, with a \<^verbatim>\<open>__run\<close> that
  takes no time-stamp and starts no \<^verbatim>\<open>__run\<close> of its own, the time-stamps and the starts of
  \<^verbatim>\<open>__run\<close> alternate: one time-stamp before each start, carrying the time that start sees.
\<close>

theorem PLC_timer_notify_stamps_then_runs:
  "PLC_timer_notify run now s =
     run (s\<lparr>CURRENT_TIME := now, trace := trace s @ [Clock_gettime now, Run now]\<rparr>) \<and>
   ((\<forall>s. stamps_and_runs (trace (run s)) = stamps_and_runs (trace s)) \<longrightarrow>
      stamps_and_runs (trace (timer_fires run nows s)) =
        stamps_and_runs (trace s) @ concat (map (\<lambda>now. [Clock_gettime now, Run now]) nows))"
  using PLC_timer_notify_eq [of run now s] timer_fires_stamps [of run nows s] by blast

theorem PLC_timer_notify_stamps_then_runs_witness:
  "(\<forall>s. stamps_and_runs (trace (InitiateDebugTransfer 0 s)) = stamps_and_runs (trace s)) \<and>
   stamps_and_runs
     (trace (timer_fires (InitiateDebugTransfer 0)
        [\<lparr>tv_sec = 100, tv_nsec = 0\<rparr>, \<lparr>tv_sec = 100, tv_nsec = 20000000\<rparr>] running_state)) =
     [Clock_gettime \<lparr>tv_sec = 100, tv_nsec = 0\<rparr>, Run \<lparr>tv_sec = 100, tv_nsec = 0\<rparr>,
      Clock_gettime \<lparr>tv_sec = 100, tv_nsec = 20000000\<rparr>, Run \<lparr>tv_sec = 100, tv_nsec = 20000000\<rparr>]"
proof -
  have quiet: "\<forall>s. stamps_and_runs (trace (InitiateDebugTransfer 0 s)) = stamps_and_runs (trace s)"
    by (simp add: InitiateDebugTransfer_eq stamps_and_runs_def)
  have none: "stamps_and_runs (trace running_state) = []"
    by (simp add: running_state_eq stamps_and_runs_def)
  show ?thesis
    using quiet none
      PLC_timer_notify_stamps_then_runs [of "InitiateDebugTransfer 0" _ running_state
        "[\<lparr>tv_sec = 100, tv_nsec = 0\<rparr>, \<lparr>tv_sec = 100, tv_nsec = 20000000\<rparr>]"]
    by simp
qed

subsection \<open>\<^verbatim>\<open>PLC_SetTimer\<close>\<close>

text \<open>
  C6. \<^verbatim>\<open>PLC_SetTimer\<close> calls \<^verbatim>\<open>timer_settime\<close> once, on \<^verbatim>\<open>PLC_timer\<close>, with the setting
  \<^verbatim>\<open>timerValues\<close> built from its two 64-bit nanosecond arguments, whatever these are; an
  existing timer takes this setting when neither argument is negative. The setting
  holds each argument as whole seconds and a nanosecond remainder, the integer quotient
  and remainder over 1000000000, exactly, for every value from 0 to 2^63 - 1 (the value
  is \<open>n\<close> for the initial delay, \<open>p\<close> for the period). 1500000000 ns gives 1 s and
  500000000 ns; 999999999 ns gives 0 s and 999999999 ns; 2^63 - 1 ns gives 9223372036 s
  and 854775807 ns. With both arguments 0 the setting is all zero, and an existing timer
  that is given it is disarmed.
\<close>

theorem PLC_SetTimer_decomposition:
  "(\<exists>r. trace (PLC_SetTimer next period s) =
        trace s @ [Timer_settime (PLC_timer s) (PLC_SetTimer_timerValues next period) r]) \<and>
   (os_timers s (PLC_timer s) \<noteq> None \<and> 0 \<le> sint next \<and> 0 \<le> sint period \<longrightarrow>
      os_timers (PLC_SetTimer next period s) (PLC_timer s) =
        Some (PLC_SetTimer_timerValues next period) \<and>
      trace (PLC_SetTimer next period s) =
        trace s @ [Timer_settime (PLC_timer s) (PLC_SetTimer_timerValues next period) 0]) \<and>
   (0 \<le> n \<and> n < 2 ^ 63 \<longrightarrow>
      sint (tv_sec (it_value (PLC_SetTimer_timerValues (word_of_int n) period))) = n div 1000000000 \<and>
      sint (tv_nsec (it_value (PLC_SetTimer_timerValues (word_of_int n) period))) = n mod 1000000000) \<and>
   (0 \<le> p \<and> p < 2 ^ 63 \<longrightarrow>
      sint (tv_sec (it_interval (PLC_SetTimer_timerValues next (word_of_int p)))) = p div 1000000000 \<and>
      sint (tv_nsec (it_interval (PLC_SetTimer_timerValues next (word_of_int p)))) = p mod 1000000000) \<and>
   it_interval (PLC_SetTimer_timerValues next 1500000000) = \<lparr>tv_sec = 1, tv_nsec = 500000000\<rparr> \<and>
   it_interval (PLC_SetTimer_timerValues next 999999999) = \<lparr>tv_sec = 0, tv_nsec = 999999999\<rparr> \<and>
   it_interval (PLC_SetTimer_timerValues next 9223372036854775807) =
     \<lparr>tv_sec = 9223372036, tv_nsec = 854775807\<rparr> \<and>
   PLC_SetTimer_timerValues 0 0 = zero_itimerspec \<and>
   (os_timers s (PLC_timer s) \<noteq> None \<longrightarrow>
      os_timers (PLC_SetTimer 0 0 s) (PLC_timer s) = Some zero_itimerspec \<and>
      \<not> armed (PLC_SetTimer 0 0 s) (PLC_timer s))"
proof -
  have call: "\<exists>r. trace (PLC_SetTimer next period s) =
        trace s @ [Timer_settime (PLC_timer s) (PLC_SetTimer_timerValues next period) r]"
    by (rule PLC_SetTimer_trace)
  have set: "os_timers (PLC_SetTimer next period s) (PLC_timer s) =
        Some (PLC_SetTimer_timerValues next period) \<and>
      trace (PLC_SetTimer next period s) =
        trace s @ [Timer_settime (PLC_timer s) (PLC_SetTimer_timerValues next period) 0]"
    if h: "os_timers s (PLC_timer s) \<noteq> None \<and> 0 \<le> sint next \<and> 0 \<le> sint period"
  proof -
    have v: "valid_timespec (it_value (PLC_SetTimer_timerValues next period))"
      using h by (simp add: timerValues_valid)
    have i: "valid_timespec (it_interval (PLC_SetTimer_timerValues next period))"
      using h by (simp add: timerValues_interval_valid)
    have l: "os_timers s (PLC_timer s) \<noteq> None"
      using h by simp
    show ?thesis
      by (simp add: PLC_SetTimer_live [OF l v i])
  qed
  have nxt: "sint (tv_sec (it_value (PLC_SetTimer_timerValues (word_of_int n) period))) = n div 1000000000 \<and>
      sint (tv_nsec (it_value (PLC_SetTimer_timerValues (word_of_int n) period))) = n mod 1000000000"
    if "0 \<le> n \<and> n < 2 ^ 63"
    using that by (simp add: timerValues_fields lldiv_nonneg)
  have per: "sint (tv_sec (it_interval (PLC_SetTimer_timerValues next (word_of_int p)))) = p div 1000000000 \<and>
      sint (tv_nsec (it_interval (PLC_SetTimer_timerValues next (word_of_int p)))) = p mod 1000000000"
    if "0 \<le> p \<and> p < 2 ^ 63"
    using that by (simp add: timerValues_fields lldiv_nonneg)
  have ex1: "it_interval (PLC_SetTimer_timerValues next 1500000000) = \<lparr>tv_sec = 1, tv_nsec = 500000000\<rparr>"
    by (simp add: timerValues_eq lldiv_examples)
  have ex2: "it_interval (PLC_SetTimer_timerValues next 999999999) = \<lparr>tv_sec = 0, tv_nsec = 999999999\<rparr>"
    by (simp add: timerValues_eq lldiv_examples)
  have ex3: "it_interval (PLC_SetTimer_timerValues next 9223372036854775807) =
     \<lparr>tv_sec = 9223372036, tv_nsec = 854775807\<rparr>"
    by (simp add: timerValues_eq lldiv_examples)
  have live: "os_timers (PLC_SetTimer 0 0 s) (PLC_timer s) = Some zero_itimerspec \<and>
              \<not> armed (PLC_SetTimer 0 0 s) (PLC_timer s)"
    if "os_timers s (PLC_timer s) \<noteq> None"
    using that
    by (simp add: PLC_SetTimer_live timerValues_zero zero_itimerspec_def valid_zero_timespec armed_def)
  show ?thesis
    using call set nxt per ex1 ex2 ex3 timerValues_zero live by blast
qed

theorem PLC_SetTimer_decomposition_witness:
  "os_timers running_state (PLC_timer running_state) \<noteq> None \<and>
   0 \<le> sint (1500000000 :: c_llong) \<and> 0 \<le> sint (999999999 :: c_llong) \<and>
   os_timers (PLC_SetTimer 1500000000 999999999 running_state) 0 =
     Some \<lparr>it_interval = \<lparr>tv_sec = 0, tv_nsec = 999999999\<rparr>,
           it_value = \<lparr>tv_sec = 1, tv_nsec = 500000000\<rparr>\<rparr> \<and>
   drop 4 (trace (PLC_SetTimer 1500000000 999999999 running_state)) =
     [Timer_settime 0 \<lparr>it_interval = \<lparr>tv_sec = 0, tv_nsec = 999999999\<rparr>,
                       it_value = \<lparr>tv_sec = 1, tv_nsec = 500000000\<rparr>\<rparr> 0] \<and>
   (0 \<le> (1500000000::int) \<and> (1500000000::int) < 2 ^ 63) \<and>
   sint (tv_sec (it_value (PLC_SetTimer_timerValues (word_of_int 1500000000) 0))) = 1 \<and>
   sint (tv_nsec (it_value (PLC_SetTimer_timerValues (word_of_int 1500000000) 0))) = 500000000 \<and>
   (0 \<le> (999999999::int) \<and> (999999999::int) < 2 ^ 63) \<and>
   sint (tv_sec (it_interval (PLC_SetTimer_timerValues 0 (word_of_int 999999999)))) = 0 \<and>
   sint (tv_nsec (it_interval (PLC_SetTimer_timerValues 0 (word_of_int 999999999)))) = 999999999 \<and>
   os_timers (PLC_SetTimer 0 0 running_state) (PLC_timer running_state) = Some zero_itimerspec \<and>
   \<not> armed (PLC_SetTimer 0 0 running_state) (PLC_timer running_state)"
proof -
  have h: "PLC_timer running_state = 0" "length (trace running_state) = 4"
    by (simp_all add: running_state_eq initial_state_def)
  have tv: "PLC_SetTimer_timerValues 1500000000 999999999 =
     \<lparr>it_interval = \<lparr>tv_sec = 0, tv_nsec = 999999999\<rparr>,
      it_value = \<lparr>tv_sec = 1, tv_nsec = 500000000\<rparr>\<rparr>"
    by (simp add: timerValues_eq lldiv_examples)
  note general = PLC_SetTimer_decomposition [of 1500000000 999999999 running_state 1500000000 999999999]
  note zero = PLC_SetTimer_decomposition [of 0 0 running_state 1500000000 999999999]
  have set: "os_timers (PLC_SetTimer 1500000000 999999999 running_state) 0 =
     Some \<lparr>it_interval = \<lparr>tv_sec = 0, tv_nsec = 999999999\<rparr>,
           it_value = \<lparr>tv_sec = 1, tv_nsec = 500000000\<rparr>\<rparr>"
    using general running_state_live by (simp add: h tv)
  have tr: "trace (PLC_SetTimer 1500000000 999999999 running_state) = trace running_state @
     [Timer_settime 0 \<lparr>it_interval = \<lparr>tv_sec = 0, tv_nsec = 999999999\<rparr>,
                       it_value = \<lparr>tv_sec = 1, tv_nsec = 500000000\<rparr>\<rparr> 0]"
    using general running_state_live by (simp add: h tv)
  have dec: "sint (tv_sec (it_value (PLC_SetTimer_timerValues (word_of_int 1500000000) 0))) = 1 \<and>
   sint (tv_nsec (it_value (PLC_SetTimer_timerValues (word_of_int 1500000000) 0))) = 500000000 \<and>
   sint (tv_sec (it_interval (PLC_SetTimer_timerValues 0 (word_of_int 999999999)))) = 0 \<and>
   sint (tv_nsec (it_interval (PLC_SetTimer_timerValues 0 (word_of_int 999999999)))) = 999999999"
    using zero by simp
  have off: "os_timers (PLC_SetTimer 0 0 running_state) (PLC_timer running_state) = Some zero_itimerspec \<and>
   \<not> armed (PLC_SetTimer 0 0 running_state) (PLC_timer running_state)"
    using zero running_state_live by simp
  show ?thesis
    using running_state_live set dec off by (simp add: tr h)
qed

subsection \<open>\<^verbatim>\<open>startPLC\<close>\<close>

text \<open>
  C8, as stated, fails where the product leaves the range of its type. With
  \<^verbatim>\<open>common_ticktime__\<close> an \<^verbatim>\<open>int\<close> of value 3000 the product 3000000000 wraps to
  -1294967296: \<^verbatim>\<open>Ttick\<close> is negative, \<^verbatim>\<open>timer_settime\<close> rejects the setting and the timer
  is not armed. With a 64-bit \<^verbatim>\<open>common_ticktime__\<close> of value 2^58 the product wraps to 0,
  and the timer is disarmed instead of armed.
\<close>

theorem startPLC_period_counterexample:
  "sint (Ttick (snd (startPLC (3000 :: c_int) (Some 0) 0 initial_state))) = - 1294967296 \<and>
   sint (Ttick (snd (startPLC (3000 :: c_int) (Some 0) 0 initial_state))) \<noteq>
     1000000 * max (sint (3000 :: c_int)) 1 \<and>
   \<not> armed (snd (startPLC (3000 :: c_int) (Some 0) 0 initial_state)) 0 \<and>
   Ttick (snd (startPLC (288230376151711744 :: 64 word) (Some 0) 0 initial_state)) = 0 \<and>
   \<not> armed (snd (startPLC (288230376151711744 :: 64 word) (Some 0) 0 initial_state)) 0"
proof -
  have T32: "(scast ((1000000 :: c_int) * maxval 3000 1) :: c_llong) = - 1294967296"
    by (simp add: maxval_def)
  have P64: "(1000000 :: 64 word) * maxval 288230376151711744 1 = 0"
    by (simp add: maxval_def)
  have d32: "lldiv (- 1294967296) 1000000000 = \<lparr>quot = - 1, rem = - 294967296\<rparr>"
    by (simp add: lldiv_def signed_divide_int_def signed_modulo_int_def)
  have a: "sint (Ttick (snd (startPLC (3000 :: c_int) (Some 0) 0 initial_state))) = - 1294967296"
    by (simp add: startPLC_Ttick T32)
  have b: "\<not> armed (snd (startPLC (3000 :: c_int) (Some 0) 0 initial_state)) 0"
    by (simp add: startPLC_success T32 timer_create_eq signal_SIGINT_def log_event_def
        PLC_SetTimer_def timer_settime_def timerValues_eq d32 valid_timespec_def
        initial_state_def armed_def zero_itimerspec_def)
  have c: "Ttick (snd (startPLC (288230376151711744 :: 64 word) (Some 0) 0 initial_state)) = 0"
    by (simp add: startPLC_Ttick P64)
  have d: "\<not> armed (snd (startPLC (288230376151711744 :: 64 word) (Some 0) 0 initial_state)) 0"
    by (simp add: startPLC_success P64 timer_create_eq signal_SIGINT_def log_event_def
        PLC_SetTimer_def timer_settime_def timerValues_zero valid_zero_timespec
        initial_state_def armed_def zero_itimerspec_def)
  show ?thesis
    using a b c d by simp
qed

text \<open>
  C8, amended. For every configured tick time \<open>c\<close> whose product
  \<open>1000000 * max c 1\<close> is in the range of the signed type it is computed in (of at
  most 64 bits), \<^verbatim>\<open>startPLC\<close> sets \<^verbatim>\<open>Ttick\<close> to that product, which is strictly positive.
  When \<^verbatim>\<open>__init\<close> succeeds, \<^verbatim>\<open>timer_settime\<close> is called once, between \<^verbatim>\<open>__init\<close> and the
  installation of the SIGINT handler, with initial delay and period both the
  decomposition of \<^verbatim>\<open>Ttick\<close>; the timer that \<^verbatim>\<open>timer_create\<close> has made (\<open>h\<close>) is then
  armed with this setting.
\<close>

theorem startPLC_period:
  fixes c :: "'w::len word" and created init_status s
  defines "s' \<equiv> snd (startPLC c created init_status s)"
  defines "setting \<equiv> PLC_SetTimer_timerValues (Ttick s') (Ttick s')"
  shows
  "LENGTH('w) \<le> 64 \<and> 1000000 * max (sint c) 1 < 2 ^ (LENGTH('w) - 1) \<longrightarrow>
     sint (Ttick s') = 1000000 * max (sint c) 1 \<and>
     0 < sint (Ttick s') \<and>
     it_value setting = it_interval setting \<and>
     sint (tv_sec (it_value setting)) * 1000000000 + sint (tv_nsec (it_value setting)) =
       sint (Ttick s') \<and>
     (init_status = 0 \<longrightarrow>
        (\<exists>r. trace s' =
           trace s @
             [Timer_create created, Init 0, Timer_settime (PLC_timer s') setting r,
              Signal_SIGINT Catch_signal]) \<and>
        (created = Some h \<longrightarrow> os_timers s' h = Some setting \<and> armed s' h))"
proof (intro impI, elim conjE)
  assume len: "LENGTH('w) \<le> 64" and fits: "1000000 * max (sint c) 1 < 2 ^ (LENGTH('w) - 1)"
  have T: "Ttick s' = scast (1000000 * maxval c 1)"
    unfolding s'_def by (rule startPLC_Ttick)
  have val: "sint (Ttick s') = 1000000 * max (sint c) 1"
    unfolding T using len fits by (rule Ttick_value)
  have pos: "0 < sint (Ttick s')"
    unfolding val by simp
  have nonneg: "0 \<le> sint (Ttick s')"
    using pos by simp
  have same: "it_value setting = it_interval setting"
    unfolding setting_def by (rule timerValues_same)
  have sum: "sint (tv_sec (it_value setting)) * 1000000000 + sint (tv_nsec (it_value setting)) =
       sint (Ttick s')"
    unfolding setting_def using nonneg by (rule timerValues_sum)
  have valid: "valid_timespec (it_value setting)" "valid_timespec (it_interval setting)"
    using timerValues_valid [OF nonneg, of "Ttick s'"] same by (simp_all add: setting_def)
  have nz: "it_value setting \<noteq> zero_timespec"
    unfolding setting_def using pos by (rule timerValues_nonzero)
  have ok: "(\<exists>r. trace s' =
           trace s @ [Timer_create created, Init 0, Timer_settime (PLC_timer s') setting r,
              Signal_SIGINT Catch_signal]) \<and>
        (created = Some h \<longrightarrow> os_timers s' h = Some setting \<and> armed s' h)"
    if i: "init_status = 0"
  proof -
    have tr: "\<exists>r. trace s' =
           trace s @ [Timer_create created, Init 0, Timer_settime (PLC_timer s') setting r,
              Signal_SIGINT Catch_signal]"
      unfolding setting_def T unfolding s'_def
      by (simp add: i startPLC_success signal_SIGINT_def log_event_def PLC_SetTimer_def
          timer_settime_def timer_create_trace)
    have arm: "os_timers s' h = Some setting \<and> armed s' h" if c: "created = Some h"
      using valid nz unfolding setting_def T unfolding s'_def
      by (simp add: i c startPLC_success signal_SIGINT_def log_event_def PLC_SetTimer_def
          timer_settime_def timer_create_eq armed_def)
    show ?thesis
      using tr arm by blast
  qed
  show "sint (Ttick s') = 1000000 * max (sint c) 1 \<and>
     0 < sint (Ttick s') \<and>
     it_value setting = it_interval setting \<and>
     sint (tv_sec (it_value setting)) * 1000000000 + sint (tv_nsec (it_value setting)) =
       sint (Ttick s') \<and>
     (init_status = 0 \<longrightarrow>
        (\<exists>r. trace s' =
           trace s @
             [Timer_create created, Init 0, Timer_settime (PLC_timer s') setting r,
              Signal_SIGINT Catch_signal]) \<and>
        (created = Some h \<longrightarrow> os_timers s' h = Some setting \<and> armed s' h))"
    using val pos ok same sum by blast
qed

theorem startPLC_period_witness:
  "LENGTH(32) \<le> (64 :: nat) \<and> 1000000 * max (sint (20 :: c_int)) 1 < (2 :: int) ^ (LENGTH(32) - 1) \<and>
   sint (Ttick running_state) = 20000000 \<and>
   os_timers running_state 0 =
     Some \<lparr>it_interval = \<lparr>tv_sec = 0, tv_nsec = 20000000\<rparr>,
           it_value = \<lparr>tv_sec = 0, tv_nsec = 20000000\<rparr>\<rparr> \<and>
   armed running_state 0"
proof -
  have fits: "LENGTH(32) \<le> (64 :: nat) \<and>
              1000000 * max (sint (20 :: c_int)) 1 < (2 :: int) ^ (LENGTH(32) - 1)"
    by simp
  have d: "lldiv 20000000 1000000000 = \<lparr>quot = 0, rem = 20000000\<rparr>"
    by (simp add: lldiv_def signed_divide_int_def signed_modulo_int_def)
  note inst = startPLC_period [of "20 :: c_int" "Some 0" 0 initial_state 0, folded running_state_def]
  have T: "sint (Ttick running_state) = 20000000"
    using inst fits by simp
  then have T': "Ttick running_state = 20000000"
    by (simp add: running_state_eq)
  have "os_timers running_state 0 =
          Some (PLC_SetTimer_timerValues (Ttick running_state) (Ttick running_state)) \<and>
        armed running_state 0"
    using inst fits by simp
  then show ?thesis
    using fits T by (simp add: T' timerValues_eq d)
qed




text \<open>
  C3, as stated, fails in its last part. \<^verbatim>\<open>timer_create\<close> is called before \<^verbatim>\<open>__init\<close>:
  after a start in which \<^verbatim>\<open>timer_create\<close> succeeds and \<^verbatim>\<open>__init\<close> returns 1, timer 0
  exists, and disarming and destroying it afterwards is not a no-op, it releases the
  timer.
\<close>

theorem startPLC_init_failure_counterexample:
  "fst (startPLC (20 :: c_int) (Some 0) 1 initial_state) = 1 \<and>
   os_timers failed_start 0 = Some zero_itimerspec \<and>
   os_timers (disarm_and_destroy failed_start) 0 = None \<and>
   disarm_and_destroy failed_start \<noteq> failed_start \<and>
   trace (disarm_and_destroy failed_start) =
     [Timer_create (Some 0), Init 1, Timer_settime 0 zero_itimerspec 0, Timer_delete 0 0]"
proof -
  have live: "os_timers failed_start (PLC_timer failed_start) \<noteq> None"
    by (simp add: failed_start_eq initial_state_def)
  have a: "os_timers failed_start 0 = Some zero_itimerspec"
    by (simp add: failed_start_eq)
  have b: "os_timers (disarm_and_destroy failed_start) 0 = None"
    by (simp add: disarm_and_destroy_live [OF live]) (simp add: failed_start_eq initial_state_def)
  have c: "trace (disarm_and_destroy failed_start) =
     [Timer_create (Some 0), Init 1, Timer_settime 0 zero_itimerspec 0, Timer_delete 0 0]"
    by (simp add: disarm_and_destroy_live [OF live]) (simp add: failed_start_eq initial_state_def)
  have d: "disarm_and_destroy failed_start \<noteq> failed_start"
    using a b by auto
  show ?thesis
    using a b c d by (simp add: startPLC_result)
qed

text \<open>
  C3, amended. If \<^verbatim>\<open>__init\<close> returns a non-zero status, \<^verbatim>\<open>startPLC\<close> returns 1; between
  entry and return it has called \<^verbatim>\<open>timer_create\<close> and \<^verbatim>\<open>__init\<close> and nothing else, so
  \<^verbatim>\<open>PLC_SetTimer\<close> is not called and no SIGINT handler is installed. The timer resource,
  however, is allocated whenever \<^verbatim>\<open>timer_create\<close> succeeds: the new timer \<open>h\<close> exists,
  disarmed, after the failed start, and a subsequent disarm-and-destroy is safe and
  releases it (both of its calls succeed).
\<close>

theorem startPLC_init_failure:
  fixes c :: "'w::len word" and created init_status s
  defines "s' \<equiv> snd (startPLC c created init_status s)"
  shows
  "init_status \<noteq> 0 \<longrightarrow>
     fst (startPLC c created init_status s) = 1 \<and>
     fst (startPLC c created init_status s) \<noteq> 0 \<and>
     trace s' = trace s @ [Timer_create created, Init init_status] \<and>
     sigint_handler s' = sigint_handler s \<and>
     os_timers s' =
       (case created of None \<Rightarrow> os_timers s
        | Some timerid \<Rightarrow> (os_timers s)(timerid \<mapsto> zero_itimerspec)) \<and>
     (created = Some h \<longrightarrow>
        PLC_timer s' = h \<and>
        \<not> armed s' h \<and>
        os_timers (disarm_and_destroy s') h = None \<and>
        trace (disarm_and_destroy s') =
          trace s' @ [Timer_settime h zero_itimerspec 0, Timer_delete h 0])"
proof (intro impI)
  assume fail: "init_status \<noteq> 0"
  have r: "fst (startPLC c created init_status s) = 1"
    by (simp add: startPLC_failure [OF fail])
  have r0: "fst (startPLC c created init_status s) \<noteq> 0"
    by (simp add: r)
  have tr: "trace s' = trace s @ [Timer_create created, Init init_status]"
    unfolding s'_def by (simp add: startPLC_failure [OF fail])
  have sig: "sigint_handler s' = sigint_handler s"
    unfolding s'_def by (simp add: startPLC_failure [OF fail] timer_create_frame)
  have os: "os_timers s' =
       (case created of None \<Rightarrow> os_timers s
        | Some timerid \<Rightarrow> (os_timers s)(timerid \<mapsto> zero_itimerspec))"
    unfolding s'_def
    by (cases created) (simp_all add: startPLC_failure [OF fail] timer_create_eq)
  have made: "PLC_timer s' = h \<and> \<not> armed s' h \<and>
        os_timers (disarm_and_destroy s') h = None \<and>
        trace (disarm_and_destroy s') =
          trace s' @ [Timer_settime h zero_itimerspec 0, Timer_delete h 0]"
    if c: "created = Some h"
  proof -
    have eq: "s' = s\<lparr>Ttick := scast (1000000 * maxval c 1), PLC_timer := h,
                      os_timers := (os_timers s)(h \<mapsto> zero_itimerspec),
                      trace := trace s @ [Timer_create (Some h), Init init_status]\<rparr>"
      unfolding s'_def by (simp add: startPLC_failure [OF fail] c timer_create_eq)
    have h: "PLC_timer s' = h"
      by (simp add: eq)
    have live: "os_timers s' (PLC_timer s') = Some zero_itimerspec"
      by (simp add: eq)
    then have live': "os_timers s' (PLC_timer s') \<noteq> None"
      by simp
    have "\<not> armed s' h"
      using live by (simp add: armed_def h zero_itimerspec_def)
    moreover have "os_timers (disarm_and_destroy s') h = None"
      by (simp add: disarm_and_destroy_live [OF live'] h)
    moreover have "trace (disarm_and_destroy s') =
          trace s' @ [Timer_settime h zero_itimerspec 0, Timer_delete h 0]"
      by (simp add: disarm_and_destroy_live [OF live'] h)
    ultimately show ?thesis
      using h by blast
  qed
  show "fst (startPLC c created init_status s) = 1 \<and>
     fst (startPLC c created init_status s) \<noteq> 0 \<and>
     trace s' = trace s @ [Timer_create created, Init init_status] \<and>
     sigint_handler s' = sigint_handler s \<and>
     os_timers s' =
       (case created of None \<Rightarrow> os_timers s
        | Some timerid \<Rightarrow> (os_timers s)(timerid \<mapsto> zero_itimerspec)) \<and>
     (created = Some h \<longrightarrow>
        PLC_timer s' = h \<and> \<not> armed s' h \<and>
        os_timers (disarm_and_destroy s') h = None \<and>
        trace (disarm_and_destroy s') =
          trace s' @ [Timer_settime h zero_itimerspec 0, Timer_delete h 0])"
    using r r0 tr sig os made by blast
qed

theorem startPLC_init_failure_witness:
  "(1 :: c_int) \<noteq> 0 \<and> Some (0 :: timer_t) = Some 0 \<and>
   fst (startPLC (20 :: c_int) (Some 0) 1 initial_state) = 1 \<and>
   trace failed_start = [Timer_create (Some 0), Init 1] \<and>
   sigint_handler failed_start = SIG_DFL \<and>
   \<not> armed failed_start 0 \<and>
   os_timers (disarm_and_destroy failed_start) 0 = None"
  using startPLC_init_failure [of 1 "20 :: c_int" "Some 0" initial_state 0]
  by (simp add: failed_start_def initial_state_def)

subsection \<open>\<^verbatim>\<open>AbortDebug\<close> and \<^verbatim>\<open>stopPLC\<close>\<close>

text \<open>
  C5. After \<^verbatim>\<open>AbortDebug\<close> the stored debug tick is the sentinel -1: a negative value,
  different from every cycle number \<open>n\<close>, which is at least 0. A second \<^verbatim>\<open>AbortDebug\<close>
  (by any thread \<open>t'\<close>) leaves the state as the first one left it, the sentinel
  included; only its own two entries are added to the log.
\<close>

theorem AbortDebug_sentinel_idempotent:
  "debug_tick (AbortDebug t s) = - 1 \<and>
   sint (debug_tick (AbortDebug t s)) < 0 \<and>
   (0 \<le> sint n \<longrightarrow> debug_tick (AbortDebug t s) \<noteq> n) \<and>
   AbortDebug t' (AbortDebug t s) =
     (AbortDebug t s)\<lparr>trace := trace (AbortDebug t s) @
        [Access t' Write_debug_tick (wait_mutex s = Some t'), Cond_broadcast t']\<rparr>"
proof -
  have a: "debug_tick (AbortDebug t s) = - 1"
    by (simp add: AbortDebug_eq)
  have b: "sint (debug_tick (AbortDebug t s)) < 0"
    by (simp add: a)
  have c: "debug_tick (AbortDebug t s) \<noteq> n" if "0 \<le> sint n"
    using that b by auto
  have d: "AbortDebug t' (AbortDebug t s) =
     (AbortDebug t s)\<lparr>trace := trace (AbortDebug t s) @
        [Access t' Write_debug_tick (wait_mutex s = Some t'), Cond_broadcast t']\<rparr>"
    by (simp add: AbortDebug_eq)
  show ?thesis
    using a b c d by blast
qed

theorem AbortDebug_sentinel_idempotent_witness:
  "0 \<le> sint (0 :: c_int) \<and> debug_tick (AbortDebug 0 initial_state) \<noteq> 0 \<and>
   debug_tick (AbortDebug 0 initial_state) = - 1 \<and>
   debug_tick (AbortDebug 0 (AbortDebug 0 initial_state)) = - 1"
  using AbortDebug_sentinel_idempotent [of 0 initial_state 0 0]
  by simp




subsection \<open>The rendezvous\<close>




text \<open>
  C1, as stated, fails. From the initial state, the write of \<^verbatim>\<open>AbortDebug\<close>, the write
  of \<^verbatim>\<open>InitiateDebugTransfer\<close> and the read of \<^verbatim>\<open>WaitDebugData\<close> are each made by a thread
  that does not hold \<^verbatim>\<open>wait_mutex\<close>.
\<close>

theorem debug_tick_accesses_counterexample:
  "\<not> all_guarded (trace (AbortDebug 0 initial_state)) \<and>
   \<not> all_guarded (trace (InitiateDebugTransfer 0 initial_state)) \<and>
   map_option (all_guarded \<circ> trace \<circ> snd)
     (WaitDebugData 1 (spurious_wakeup 1) initial_state) = Some False"
  by (simp add: AbortDebug_eq InitiateDebugTransfer_eq WaitDebugData_eq blocked_state_def
      spurious_wakeup_def initial_state_def all_guarded_def Let_def)

text \<open>
  C1, amended. No access to \<^verbatim>\<open>__debug_tick\<close> by the three operations is made under
  \<^verbatim>\<open>wait_mutex\<close>. A thread that does not hold the mutex when it calls \<^verbatim>\<open>AbortDebug\<close> or
  \<^verbatim>\<open>InitiateDebugTransfer\<close> writes the debug tick and broadcasts without taking it.
  \<^verbatim>\<open>WaitDebugData\<close> takes the mutex, blocks in \<^verbatim>\<open>pthread_cond_wait\<close>, and once woken
  releases the mutex before it reads the debug tick: the mutex is held around
  \<^verbatim>\<open>pthread_cond_wait\<close> only.
\<close>

theorem debug_tick_accesses_without_mutex:
  "(wait_mutex s \<noteq> Some t \<longrightarrow>
      trace (AbortDebug t s) = trace s @ [Access t Write_debug_tick False, Cond_broadcast t] \<and>
      trace (InitiateDebugTransfer t s) =
        trace s @ [Access t Write_debug_tick False, Cond_broadcast t]) \<and>
   (WaitDebugData t others s = Some (v, s') \<longrightarrow>
      wait_mutex s = None \<and>
      trace (blocked_state t s) = trace s @ [Mutex_lock t, Cond_wait_block t] \<and>
      trace s' = trace (others (blocked_state t s)) @
        [Cond_wait_return t, Mutex_unlock t, Access t Read_debug_tick False])"
proof -
  have a: "trace (AbortDebug t s) = trace s @ [Access t Write_debug_tick False, Cond_broadcast t] \<and>
      trace (InitiateDebugTransfer t s) =
        trace s @ [Access t Write_debug_tick False, Cond_broadcast t]"
    if "wait_mutex s \<noteq> Some t"
    using that by (simp add: AbortDebug_eq InitiateDebugTransfer_eq)
  have b: "wait_mutex s = None \<and>
      trace (blocked_state t s) = trace s @ [Mutex_lock t, Cond_wait_block t] \<and>
      trace s' = trace (others (blocked_state t s)) @
        [Cond_wait_return t, Mutex_unlock t, Access t Read_debug_tick False]"
    if w: "WaitDebugData t others s = Some (v, s')"
  proof -
    have "wait_mutex s = None"
      using w WaitDebugData_busy [of s t others] by (cases "wait_mutex s") simp_all
    then show ?thesis
      using WaitDebugData_value(4) [OF w] by (simp add: blocked_state_def)
  qed
  show ?thesis
    using a b by blast
qed

theorem debug_tick_accesses_without_mutex_witness:
  "wait_mutex initial_state \<noteq> Some 0 \<and>
   trace (AbortDebug 0 initial_state) = [Access 0 Write_debug_tick False, Cond_broadcast 0] \<and>
   trace (InitiateDebugTransfer 0 initial_state) = [Access 0 Write_debug_tick False, Cond_broadcast 0] \<and>
   map_option (trace \<circ> snd) (WaitDebugData 1 (spurious_wakeup 1) initial_state) =
     Some [Mutex_lock 1, Cond_wait_block 1, Cond_wait_return 1, Mutex_unlock 1,
           Access 1 Read_debug_tick False]"
proof -
  have free: "wait_mutex initial_state \<noteq> Some 0"
    by (simp add: initial_state_def)
  obtain v s' where w: "WaitDebugData 1 (spurious_wakeup 1) initial_state = Some (v, s')"
    by (simp add: WaitDebugData_eq blocked_state_def spurious_wakeup_def initial_state_def Let_def)
  note inst = debug_tick_accesses_without_mutex [of initial_state 0]
  note instw = debug_tick_accesses_without_mutex [of initial_state 1 "spurious_wakeup 1" v s']
  have tr0: "trace initial_state = []"
    by (simp add: initial_state_def)
  have a: "trace (AbortDebug 0 initial_state) = [Access 0 Write_debug_tick False, Cond_broadcast 0]"
    using inst free tr0 by simp
  have b: "trace (InitiateDebugTransfer 0 initial_state) = [Access 0 Write_debug_tick False, Cond_broadcast 0]"
    using inst free tr0 by simp
  have c: "trace s' = [Mutex_lock 1, Cond_wait_block 1, Cond_wait_return 1, Mutex_unlock 1,
           Access 1 Read_debug_tick False]"
    using instw w tr0 by (simp add: spurious_wakeup_def blocked_state_def)
  show ?thesis
    using free a b c w by simp
qed

end
